theory Spec2Isabelle
  imports Complex_Main "HOL-Library.Log_Nat" "HOL-Library.Sublist"
begin

text \<open>
  A shallow embedding of \<open>lisp.cpp\<close>: the reader \<open>parser::parse\<close>, which turns a text
  into a tree of \<open>lisp_object\<close>s, and the evaluator \<open>interpreter::eval\<close> with its four
  reductions. The functions keep the names of the source. State is passed explicitly:
  the reader's cursor \<open>index\<close>, and the evaluator's \<open>globalEnv\<close>. An exception is a
  value, and so is undefined behaviour of the C++ code.
\<close>

section \<open>The value type \<open>double\<close>\<close>

text \<open>
  \<open>lisp_number\<close> holds a C++ \<open>double\<close>. The model is IEEE 754 binary64 with the default
  rounding (to nearest, ties to even): a value is a signed finite magnitude (a rational
  that the format represents, zero included, so that there are two zeros), a signed
  infinity, or NaN. Only the operations the interpreter uses are given: \<open>+=\<close>, \<open>-=\<close>,
  \<open>*=\<close> and \<open>/=\<close>. The first component of \<open>Finite\<close> and \<open>Infinite\<close> is the sign bit
  (\<open>True\<close> for negative).
\<close>

datatype double = Finite bool rat | Infinite bool | NaN

definition round_half_even :: "rat \<Rightarrow> int" where
  "round_half_even x =
     (let f = \<lfloor>x\<rfloor>; d = x - of_int f
      in if d < 1 / 2 then f
         else if 1 / 2 < d then f + 1
         else if even f then f else f + 1)"

text \<open>\<open>ilog2 a\<close> is the binary exponent of a positive rational: \<open>2 ^ e \<le> a < 2 ^ (e + 1)\<close>.\<close>

definition ilog2 :: "rat \<Rightarrow> int" where
  "ilog2 a =
     (let (p, q) = quotient_of a; e = bitlen p - bitlen q
      in if 2 powi e \<le> a then e else e - 1)"

text \<open>
  Rounding of a non-negative exact result to binary64: 53 significant bits, least
  exponent \<open>-1022\<close> (below it the spacing stays \<open>2 ^ -1074\<close>: subnormal numbers), and
  overflow to infinity from \<open>2 ^ 1024\<close> on.
\<close>

definition round_double :: "bool \<Rightarrow> rat \<Rightarrow> double" where
  "round_double s a =
     (if a = 0 then Finite s 0
      else let e = max (ilog2 a) (- 1022);
               ulp = 2 powi (e - 52);
               v = of_int (round_half_even (a / ulp)) * ulp
           in if 2 powi 1024 \<le> v then Infinite s else Finite s v)"

definition signed :: "bool \<Rightarrow> rat \<Rightarrow> rat" where
  "signed s a = (if s then - a else a)"

fun dadd :: "double \<Rightarrow> double \<Rightarrow> double" where
  "dadd NaN y = NaN"
| "dadd x NaN = NaN"
| "dadd (Infinite s) (Infinite t) = (if s = t then Infinite s else NaN)"
| "dadd (Infinite s) (Finite t b) = Infinite s"
| "dadd (Finite s a) (Infinite t) = Infinite t"
| "dadd (Finite s a) (Finite t b) =
     (let r = signed s a + signed t b
      in if r = 0 then Finite (s \<and> t) 0 else round_double (r < 0) \<bar>r\<bar>)"

fun dneg :: "double \<Rightarrow> double" where
  "dneg NaN = NaN"
| "dneg (Infinite s) = Infinite (\<not> s)"
| "dneg (Finite s a) = Finite (\<not> s) a"

definition dsub :: "double \<Rightarrow> double \<Rightarrow> double" where
  "dsub x y = dadd x (dneg y)"

fun dmul :: "double \<Rightarrow> double \<Rightarrow> double" where
  "dmul NaN y = NaN"
| "dmul x NaN = NaN"
| "dmul (Infinite s) (Infinite t) = Infinite (s \<noteq> t)"
| "dmul (Infinite s) (Finite t b) = (if b = 0 then NaN else Infinite (s \<noteq> t))"
| "dmul (Finite s a) (Infinite t) = (if a = 0 then NaN else Infinite (s \<noteq> t))"
| "dmul (Finite s a) (Finite t b) = round_double (s \<noteq> t) (a * b)"

fun ddiv :: "double \<Rightarrow> double \<Rightarrow> double" where
  "ddiv NaN y = NaN"
| "ddiv x NaN = NaN"
| "ddiv (Infinite s) (Infinite t) = NaN"
| "ddiv (Infinite s) (Finite t b) = Infinite (s \<noteq> t)"
| "ddiv (Finite s a) (Infinite t) = Finite (s \<noteq> t) 0"
| "ddiv (Finite s a) (Finite t b) =
     (if b = 0 then (if a = 0 then NaN else Infinite (s \<noteq> t))
      else round_double (s \<noteq> t) (a / b))"

text \<open>The conversion of an integer literal of the source (\<open>double sum = 0\<close>).\<close>

definition double_of_int :: "int \<Rightarrow> double" where
  "double_of_int i = round_double (i < 0) \<bar>of_int i\<bar>"

section \<open>Objects\<close>

text \<open>
  The three classes derived from \<open>lisp_object\<close>. A \<open>lisp_object_ptr\<close> is a
  \<open>std::shared_ptr\<close>, which may be null: \<open>None\<close> is \<open>nullptr\<close>. Objects are never
  mutated after construction, so a shared object is modelled by its value.
\<close>

datatype lisp_object =
    lisp_number double
  | lisp_symbol string
  | lisp_list "lisp_object option list"

type_synonym lisp_object_ptr = "lisp_object option"

section \<open>The interpreter\<close>

text \<open>
  \<open>globalEnv\<close> is a \<open>std::map<std::string, lisp_object_ptr>\<close>: a finite map whose
  values may be null pointers.
\<close>

type_synonym env = "string \<rightharpoonup> lisp_object_ptr"

text \<open>The constructor \<open>interpreter::interpreter\<close>.\<close>

definition interpreter :: env where
  "interpreter =
     [''+'' \<mapsto> Some (lisp_symbol ''+''),
      ''-'' \<mapsto> Some (lisp_symbol ''-''),
      ''*'' \<mapsto> Some (lisp_symbol ''*''),
      ''/'' \<mapsto> Some (lisp_symbol ''/'')]"

text \<open>
  \<open>std::map::operator[]\<close>: the value stored under the key; when the key is absent, a
  value-initialised entry (a null pointer) is inserted first.
\<close>

definition subscript :: "env \<Rightarrow> string \<Rightarrow> lisp_object_ptr \<times> env" where
  "subscript m k = (case m k of Some v \<Rightarrow> (v, m) | None \<Rightarrow> (None, m(k \<mapsto> None)))"

text \<open>
  The exceptions: \<open>std::runtime_error\<close> with the message the source gives it, and the
  two that \<open>std::stod\<close> throws, whose messages are the library's own. What a call of the
  evaluator does: it returns a value, or throws, both in a new state of \<open>globalEnv\<close>,
  or it has undefined behaviour (a null pointer is dereferenced, a vector is read out of
  its bounds), after which nothing is known.
\<close>

datatype exn = runtime_error string | invalid_argument | out_of_range

datatype 'a outcome = Returns 'a env | Throws exn env | Undefined

text \<open>
  \<open>interpreter::eval\<close> and the four reductions, in the registry \<open>g\<close>. The operator of
  a list is its first element cast to \<open>lisp_symbol\<close>; the cast of anything else is null,
  and reading its name is undefined. \<open>operand\<close> is the expression
  \<open>dynamic_cast<lisp_number*>(eval(arg).get())->getValue()\<close>: the cast of anything but
  a number is null, and calling \<open>getValue\<close> through it is undefined. \<open>for_loop\<close> is the
  loop the four reductions share, \<open>acc op= operand\<close> over the remaining arguments in
  order. \<open>evalSubtract\<close> and \<open>evalDivide\<close> begin with \<open>args[0]\<close>, which is
  undefined for an empty vector.
\<close>

function (sequential) eval :: "env \<Rightarrow> lisp_object_ptr \<Rightarrow> lisp_object_ptr outcome"
  and operand :: "env \<Rightarrow> lisp_object_ptr \<Rightarrow> double outcome"
  and for_loop :: "(double \<Rightarrow> double \<Rightarrow> double) \<Rightarrow> env \<Rightarrow> double \<Rightarrow> lisp_object_ptr list \<Rightarrow> double outcome"
  and evalAdd :: "env \<Rightarrow> lisp_object_ptr list \<Rightarrow> lisp_object_ptr outcome"
  and evalSubtract :: "env \<Rightarrow> lisp_object_ptr list \<Rightarrow> lisp_object_ptr outcome"
  and evalMultiply :: "env \<Rightarrow> lisp_object_ptr list \<Rightarrow> lisp_object_ptr outcome"
  and evalDivide :: "env \<Rightarrow> lisp_object_ptr list \<Rightarrow> lisp_object_ptr outcome"
where
  "eval g (Some (lisp_number v)) = Returns (Some (lisp_number v)) g"
| "eval g (Some (lisp_symbol name)) = (case subscript g name of (p, g') \<Rightarrow> Returns p g')"
| "eval g (Some (lisp_list [])) = Returns None g"
| "eval g (Some (lisp_list (e # args))) =
     (case e of
        Some (lisp_symbol name) \<Rightarrow>
          if name = ''+'' then evalAdd g args
          else if name = ''-'' then evalSubtract g args
          else if name = ''*'' then evalMultiply g args
          else if name = ''/'' then evalDivide g args
          else Throws (runtime_error (''Unknown operator: '' @ name)) g
      | _ \<Rightarrow> Undefined)"
| "eval g None = Throws (runtime_error ''Unknown expression'') g"
| "operand g arg =
     (case eval g arg of
        Returns (Some (lisp_number v)) g' \<Rightarrow> Returns v g'
      | Returns _ g' \<Rightarrow> Undefined
      | Throws x g' \<Rightarrow> Throws x g'
      | Undefined \<Rightarrow> Undefined)"
| "for_loop f g acc [] = Returns acc g"
| "for_loop f g acc (arg # args) =
     (case operand g arg of
        Returns v g' \<Rightarrow> for_loop f g' (f acc v) args
      | Throws x g' \<Rightarrow> Throws x g'
      | Undefined \<Rightarrow> Undefined)"
| "evalAdd g args =
     (case for_loop dadd g (double_of_int 0) args of
        Returns s g' \<Rightarrow> Returns (Some (lisp_number s)) g'
      | Throws x g' \<Rightarrow> Throws x g'
      | Undefined \<Rightarrow> Undefined)"
| "evalSubtract g [] = Undefined"
| "evalSubtract g (arg # args) =
     (case operand g arg of
        Returns v g' \<Rightarrow>
          (case for_loop dsub g' v args of
             Returns result g'' \<Rightarrow> Returns (Some (lisp_number result)) g''
           | Throws x g'' \<Rightarrow> Throws x g''
           | Undefined \<Rightarrow> Undefined)
      | Throws x g' \<Rightarrow> Throws x g'
      | Undefined \<Rightarrow> Undefined)"
| "evalMultiply g args =
     (case for_loop dmul g (double_of_int 1) args of
        Returns p g' \<Rightarrow> Returns (Some (lisp_number p)) g'
      | Throws x g' \<Rightarrow> Throws x g'
      | Undefined \<Rightarrow> Undefined)"
| "evalDivide g [] = Undefined"
| "evalDivide g (arg # args) =
     (case operand g arg of
        Returns v g' \<Rightarrow>
          (case for_loop ddiv g' v args of
             Returns result g'' \<Rightarrow> Returns (Some (lisp_number result)) g''
           | Throws x g'' \<Rightarrow> Throws x g''
           | Undefined \<Rightarrow> Undefined)
      | Throws x g' \<Rightarrow> Throws x g'
      | Undefined \<Rightarrow> Undefined)"
  by pat_completeness auto
termination
  by (relation "measure (\<lambda>x. case x of
        Inl (Inl (g, p)) \<Rightarrow> 4 * size_option size p
      | Inl (Inr (Inl (g, p))) \<Rightarrow> 4 * size_option size p + 1
      | Inl (Inr (Inr (f, g, acc, args))) \<Rightarrow> 4 * size_list (size_option size) args + 2
      | Inr (Inl (Inl (g, args))) \<Rightarrow> 4 * size_list (size_option size) args + 3
      | Inr (Inl (Inr (g, args))) \<Rightarrow> 4 * size_list (size_option size) args + 3
      | Inr (Inr (Inl (g, args))) \<Rightarrow> 4 * size_list (size_option size) args + 3
      | Inr (Inr (Inr (g, args))) \<Rightarrow> 4 * size_list (size_option size) args + 3)") auto

section \<open>The reader\<close>

text \<open>
  \<open>isspace\<close> and \<open>isdigit\<close> of \<open>cctype\<close> in the "C" locale: blank, the five control
  characters from horizontal tab to carriage return, and the ten decimal digits. A byte
  above 127 is neither.
\<close>

definition isspace :: "char \<Rightarrow> bool" where
  "isspace c = (c \<in> {CHR '' '', CHR 0x09, CHR 0x0A, CHR 0x0B, CHR 0x0C, CHR 0x0D})"

definition isdigit :: "char \<Rightarrow> bool" where
  "isdigit c = (c \<in> set ''0123456789'')"

text \<open>
  \<open>std::stod\<close>, on the strings the reader hands to it: the number loop collects decimal
  digits and points only, so no blank, sign, exponent, hexadecimal prefix, \<open>inf\<close> or
  \<open>nan\<close> can stand in the argument. \<open>strtod\<close> converts the longest initial part of
  the form digits, optional point, digits (with a digit on one side of the point at
  least) and ignores what follows; \<open>subject_sequence\<close> is that part, as the digits before
  and after the point. Without such a part \<open>stod\<close> throws \<open>std::invalid_argument\<close>.
  The value is the decimal number rounded to the nearest \<open>double\<close>; when \<open>strtod\<close>
  reports a range error, \<open>stod\<close> throws \<open>std::out_of_range\<close>. A value that rounds
  to infinity is a range error. For a value too small for a normal number, whether
  \<open>strtod\<close> reports one is implementation-defined: the model takes it to do so when the
  value lies below the least normal number \<open>2 ^ -1022\<close> and is not a \<open>double\<close> itself.
\<close>

definition digit_value :: "char \<Rightarrow> nat" where
  "digit_value c = of_char c - 48"

definition decimal :: "string \<Rightarrow> nat" where
  "decimal ds = foldl (\<lambda>n c. 10 * n + digit_value c) 0 ds"

definition subject_sequence :: "string \<Rightarrow> string \<times> string" where
  "subject_sequence str =
     (let ip = takeWhile isdigit str
      in case dropWhile isdigit str of
           c # rest \<Rightarrow> if c = CHR ''.'' then (ip, takeWhile isdigit rest) else (ip, [])
         | [] \<Rightarrow> (ip, []))"

definition stod :: "string \<Rightarrow> exn + double" where
  "stod str =
     (case subject_sequence str of (ip, fp) \<Rightarrow>
        if ip = [] \<and> fp = [] then Inl invalid_argument
        else let a = of_nat (decimal (ip @ fp)) / 10 ^ length fp;
                 d = round_double False a
             in if d = Infinite False \<or> (a < 2 powi (- 1022) \<and> d \<noteq> Finite False a)
                then Inl out_of_range else Inr d)"

text \<open>
  The parser's state is its \<open>index\<close>; \<open>input\<close> never changes. Every function of the
  reader takes the index and returns the new one. \<open>currentChar\<close> is \<open>input[index]\<close>:
  at \<open>index = input.length()\<close> it is the null character that ends a \<open>std::string\<close>,
  and the index never passes the length (\<open>parse_advance\<close> below).
\<close>

definition currentChar :: "string \<Rightarrow> nat \<Rightarrow> char" where
  "currentChar input index = (if index < length input then input ! index else CHR 0x00)"

text \<open>The three \<open>while\<close> loops of the reader: blanks, a number's lexeme, a symbol's name.\<close>

function skipWhitespace :: "string \<Rightarrow> nat \<Rightarrow> nat" where
  "skipWhitespace input index =
     (if index < length input \<and> isspace (currentChar input index)
      then skipWhitespace input (index + 1) else index)"
  by pat_completeness auto
termination
  by (relation "measure (\<lambda>(input, index). length input - index)") auto

function number_loop :: "string \<Rightarrow> nat \<Rightarrow> string \<Rightarrow> string \<times> nat" where
  "number_loop input index number =
     (if index < length input \<and> (isdigit (currentChar input index) \<or> currentChar input index = CHR ''.'')
      then number_loop input (index + 1) (number @ [currentChar input index])
      else (number, index))"
  by pat_completeness auto
termination
  by (relation "measure (\<lambda>(input, index, number). length input - index)") auto

function symbol_loop :: "string \<Rightarrow> nat \<Rightarrow> string \<Rightarrow> string \<times> nat" where
  "symbol_loop input index symbol =
     (if index < length input \<and> \<not> isspace (currentChar input index) \<and> currentChar input index \<noteq> CHR '')''
      then symbol_loop input (index + 1) (symbol @ [currentChar input index])
      else (symbol, index))"
  by pat_completeness auto
termination
  by (relation "measure (\<lambda>(input, index, symbol). length input - index)") auto

declare skipWhitespace.simps [simp del] number_loop.simps [simp del] symbol_loop.simps [simp del]

text \<open>
  \<open>parser::parse\<close>. A result is the exception thrown (\<open>Inl\<close>) or the object made and the
  index after it (\<open>Inr\<close>). \<open>parse_elements\<close> is the loop of the list branch, with the
  vector \<open>elements\<close> collected so far; it ends with the \<open>index++\<close> over the closing
  parenthesis. The loop calls \<open>parse\<close> on what that call left behind, so that the
  recursion ends only because every call that returns has moved the index forward: this is
  proved first, for the arguments on which the two functions are defined, and gives
  termination everywhere.
\<close>

function parse :: "string \<Rightarrow> nat \<Rightarrow> exn + (lisp_object_ptr \<times> nat)"
  and parse_elements :: "string \<Rightarrow> nat \<Rightarrow> lisp_object_ptr list \<Rightarrow> exn + (lisp_object_ptr \<times> nat)"
where
  "parse input index0 =
     (let index = skipWhitespace input index0
      in if length input \<le> index then Inl (runtime_error ''Unexpected end of input'')
         else let c = currentChar input index
              in if c = CHR ''(''
                 then parse_elements input (index + 1) []
                 else if isdigit c \<or>
                         (c = CHR ''-'' \<and> index + 1 < length input \<and> isdigit (input ! (index + 1)))
                 then (case number_loop input index [] of (number, index') \<Rightarrow>
                         (case stod number of
                            Inl x \<Rightarrow> Inl x
                          | Inr v \<Rightarrow> Inr (Some (lisp_number v), index')))
                 else (case symbol_loop input index [] of (symbol, index') \<Rightarrow>
                         Inr (Some (lisp_symbol symbol), index')))"
| "parse_elements input index elements =
     (if currentChar input index \<noteq> CHR '')''
      then (case parse input index of
              Inl x \<Rightarrow> Inl x
            | Inr (e, index') \<Rightarrow>
                parse_elements input (skipWhitespace input index') (elements @ [e]))
      else Inr (Some (lisp_list elements), index + 1))"
  by pat_completeness auto

section \<open>Reading and evaluating\<close>

text \<open>
  The body of \<open>main\<close>, for any input text: a fresh parser at index 0, a fresh interpreter,
  \<open>parse\<close> and then \<open>eval\<close>. An exception of the reader leaves the registry as the
  constructor built it.
\<close>

definition evaluate_parse :: "string \<Rightarrow> lisp_object_ptr outcome" where
  "evaluate_parse input =
     (case parse input 0 of
        Inl x \<Rightarrow> Throws x interpreter
      | Inr (parsedExpression, index) \<Rightarrow> eval interpreter parsedExpression)"

section \<open>Notions of the specification\<close>

text \<open>
  The specification's reading of an operand sequence: every operand is evaluated, from left
  to right, each in the registry the one before it left, and each has to be a number. The
  list of their values is what a reduction folds.
\<close>

fun operand_values :: "env \<Rightarrow> lisp_object_ptr list \<Rightarrow> double list outcome" where
  "operand_values g [] = Returns [] g"
| "operand_values g (arg # args) =
     (case operand g arg of
        Returns v g' \<Rightarrow>
          (case operand_values g' args of
             Returns vs g'' \<Rightarrow> Returns (v # vs) g''
           | Throws x g'' \<Rightarrow> Throws x g''
           | Undefined \<Rightarrow> Undefined)
      | Throws x g' \<Rightarrow> Throws x g'
      | Undefined \<Rightarrow> Undefined)"

text \<open>
  The registry after a call. \<open>settled r g\<close>: the outcome \<open>r\<close>, when it is a return or a
  throw, carries the registry \<open>g\<close>.
\<close>

definition settled :: "'a outcome \<Rightarrow> env \<Rightarrow> bool" where
  "settled r g = (case r of Returns v g' \<Rightarrow> g' = g | Throws x g' \<Rightarrow> g' = g | Undefined \<Rightarrow> True)"







section \<open>Termination of the reader\<close>

text \<open>
  The loops move the cursor forward and keep it within the buffer; so does every call of
  \<open>parse\<close> that returns, and a call that returns from a position not at a closing
  parenthesis has consumed something.
\<close>

lemma skipWhitespace_ge: "index \<le> skipWhitespace input index"
  by (induction input index rule: skipWhitespace.induct)
     (subst skipWhitespace.simps, auto)

lemma skipWhitespace_le: "index \<le> length input \<Longrightarrow> skipWhitespace input index \<le> length input"
  by (induction input index rule: skipWhitespace.induct)
     (subst skipWhitespace.simps, auto)

lemma skipWhitespace_stop:
  "skipWhitespace input index < length input \<Longrightarrow>
     \<not> isspace (input ! skipWhitespace input index)"
  by (induction input index rule: skipWhitespace.induct)
     (subst (asm) skipWhitespace.simps, subst skipWhitespace.simps, auto simp: currentChar_def split: if_splits)


lemma number_loop_ge: "number_loop input index number = (n, index') \<Longrightarrow> index \<le> index'"
  by (induction input index number rule: number_loop.induct)
     (subst (asm) number_loop.simps, auto split: if_splits)

lemma number_loop_le:
  "number_loop input index number = (n, index') \<Longrightarrow> index \<le> length input \<Longrightarrow> index' \<le> length input"
  by (induction input index number rule: number_loop.induct)
     (subst (asm) number_loop.simps, auto split: if_splits)

lemma number_loop_digit:
  "number_loop input index number = (n, index') \<Longrightarrow> index < length input \<Longrightarrow>
     isdigit (input ! index) \<Longrightarrow> index < index'"
  by (subst (asm) number_loop.simps) (auto simp: currentChar_def dest: number_loop_ge)

lemma number_loop_minus:
  "index < length input \<Longrightarrow> input ! index = CHR ''-'' \<Longrightarrow>
     number_loop input index number = (number, index)"
  by (subst number_loop.simps) (simp add: currentChar_def isdigit_def)

lemma symbol_loop_ge: "symbol_loop input index symbol = (n, index') \<Longrightarrow> index \<le> index'"
  by (induction input index symbol rule: symbol_loop.induct)
     (subst (asm) symbol_loop.simps, auto split: if_splits)

lemma symbol_loop_le:
  "symbol_loop input index symbol = (n, index') \<Longrightarrow> index \<le> length input \<Longrightarrow> index' \<le> length input"
  by (induction input index symbol rule: symbol_loop.induct)
     (subst (asm) symbol_loop.simps, auto split: if_splits)

lemma symbol_loop_advance:
  "symbol_loop input index symbol = (n, index') \<Longrightarrow> index < length input \<Longrightarrow>
     \<not> isspace (input ! index) \<Longrightarrow> input ! index \<noteq> CHR '')'' \<Longrightarrow> index < index'"
  by (subst (asm) symbol_loop.simps) (auto simp: currentChar_def dest: symbol_loop_ge)

lemma stod_empty: "stod [] = Inl invalid_argument"
  by (simp add: stod_def subject_sequence_def)

lemma parse_advance_partial:
  "parse_parse_elements_dom (Inl (input, index)) \<Longrightarrow>
     (\<forall>e index'. parse input index = Inr (e, index') \<longrightarrow>
        index < length input \<and> index \<le> index' \<and> index' \<le> length input \<and>
        (input ! index \<noteq> CHR '')'' \<longrightarrow> index < index'))"
  "parse_parse_elements_dom (Inr (input, index, elements)) \<Longrightarrow>
     (\<forall>e index'. parse_elements input index elements = Inr (e, index') \<longrightarrow>
        index < index' \<and> index' \<le> length input)"
proof (induction input index and input index elements rule: parse_parse_elements.pinduct)
  case (1 input index0)
  define i where "i = skipWhitespace input index0"
  have ge: "index0 \<le> i"
    by (simp add: i_def skipWhitespace_ge)
  show ?case
  proof (intro allI impI)
    fix e index'
    assume r: "parse input index0 = Inr (e, index')"
    have lt: "i < length input"
      using r by (simp add: parse.psimps [OF "1.hyps"] i_def [symmetric] Let_def split: if_splits)
    have cc: "currentChar input i = input ! i"
      using lt by (simp add: currentChar_def)
    have nsp: "\<not> isspace (input ! i)"
      using lt skipWhitespace_stop [of input index0] by (simp add: i_def)
    have same: "i = index0 \<or> index0 < i"
      using ge by auto
    consider (list) "input ! i = CHR ''(''"
      | (num) "input ! i \<noteq> CHR ''(''" "isdigit (input ! i) \<or>
           (input ! i = CHR ''-'' \<and> i + 1 < length input \<and> isdigit (input ! (i + 1)))"
      | (sym) "input ! i \<noteq> CHR ''(''" "\<not> (isdigit (input ! i) \<or>
           (input ! i = CHR ''-'' \<and> i + 1 < length input \<and> isdigit (input ! (i + 1))))"
      by blast
    then show "index0 < length input \<and> index0 \<le> index' \<and> index' \<le> length input \<and>
        (input ! index0 \<noteq> CHR '')'' \<longrightarrow> index0 < index')"
    proof cases
      case list
      have "parse_elements input (i + 1) [] = Inr (e, index')"
        using r lt list cc by (simp add: parse.psimps [OF "1.hyps"] i_def [symmetric] Let_def)
      moreover have "\<forall>e index'. parse_elements input (i + 1) [] = Inr (e, index') \<longrightarrow>
          i + 1 < index' \<and> index' \<le> length input"
        using "1.IH" [of i "currentChar input i"] lt list cc by (simp add: i_def)
      ultimately show ?thesis
        using ge lt by fastforce
    next
      case num
      obtain number j where nl: "number_loop input i [] = (number, j)"
        by (cases "number_loop input i []") auto
      have st: "\<exists>v. stod number = Inr v \<and> index' = j"
        using r lt num cc nl
        by (auto simp: parse.psimps [OF "1.hyps"] i_def [symmetric] Let_def split: sum.splits)
      have "isdigit (input ! i)"
      proof (rule ccontr)
        assume "\<not> isdigit (input ! i)"
        then have "input ! i = CHR ''-''"
          using num by blast
        then have "number = []"
          using number_loop_minus [OF lt, of "[]"] nl by simp
        then show False
          using st stod_empty by simp
      qed
      then have "i < j"
        using number_loop_digit [OF nl lt] by simp
      moreover have "j \<le> length input"
        using number_loop_le [OF nl] lt by simp
      ultimately show ?thesis
        using st ge lt by auto
    next
      case sym
      obtain symbol j where sl: "symbol_loop input i [] = (symbol, j)"
        by (cases "symbol_loop input i []") auto
      have j: "index' = j"
        using r lt sym cc sl
        by (auto simp: parse.psimps [OF "1.hyps"] i_def [symmetric] Let_def)
      have le: "i \<le> j" "j \<le> length input"
        using symbol_loop_ge [OF sl] symbol_loop_le [OF sl] lt by auto
      have "input ! i \<noteq> CHR '')'' \<Longrightarrow> i < j"
        using symbol_loop_advance [OF sl lt nsp] by simp
      then show ?thesis
        using j le ge lt same by auto
    qed
  qed
next
  case (2 input index elements)
  show ?case
  proof (intro allI impI)
    fix e index'
    assume r: "parse_elements input index elements = Inr (e, index')"
    show "index < index' \<and> index' \<le> length input"
    proof (cases "currentChar input index = CHR '')''")
      case True
      then have "index < length input"
        by (auto simp: currentChar_def split: if_splits)
      moreover have "index' = index + 1"
        using r True by (simp add: parse_elements.psimps [OF "2.hyps"])
      ultimately show ?thesis by simp
    next
      case False
      then obtain x y where p: "parse input index = Inr (x, y)"
        and q: "parse_elements input (skipWhitespace input y) (elements @ [x]) = Inr (e, index')"
        using r by (auto simp: parse_elements.psimps [OF "2.hyps"] split: sum.splits)
      have a: "index < length input \<and> index \<le> y \<and> y \<le> length input \<and>
          (input ! index \<noteq> CHR '')'' \<longrightarrow> index < y)"
        using "2.IH"(1) [OF False] p by blast
      then have "index < y"
        using False by (simp add: currentChar_def)
      moreover have "skipWhitespace input y < index' \<and> index' \<le> length input"
        using "2.IH"(2) [OF False p refl] q by blast
      ultimately show ?thesis
        using skipWhitespace_ge [of y input] by linarith
    qed
  qed
qed

lemma parse_total: "All parse_parse_elements_dom"
proof (rule "parse_parse_elements.termination" [where R = "measure (\<lambda>x. case x of
          Inl (input, index) \<Rightarrow> 2 * (length input - index)
        | Inr (input, index, elements) \<Rightarrow> 2 * (length input - index) + 1)"], goal_cases)
  case 1
  show ?case by simp
next
  case (2 input index0 x xa)
  then show ?case
    using skipWhitespace_ge [of index0 input] by simp
next
  case (3 input index elements)
  then show ?case by simp
next
  case (4 input index elements b x y)
  then have "index < length input \<and> index < y"
    using parse_advance_partial(1) [of input index] by (auto simp: currentChar_def split: if_splits)
  then have "index < length input \<and> index < skipWhitespace input y"
    using skipWhitespace_ge [of y input] by linarith
  then show ?case
    by (simp add: diff_less_mono2)
qed

termination parse
  by (rule parse_total)


lemma parse_elements_advance:
  "parse_elements input index elements = Inr (e, index') \<Longrightarrow>
     index < index' \<and> index' \<le> length input"
  using parse_advance_partial(2) [of input index elements] parse_total by blast

declare parse.simps [simp del] parse_elements.simps [simp del]

section \<open>Exact values of \<open>double\<close>\<close>

text \<open>
  An integer below \<open>2 ^ 53\<close> is a \<open>double\<close>: rounding leaves it as it is. This is what
  evaluates the arithmetic of the examples.
\<close>

lemma round_half_even_of_int: "round_half_even (of_int z) = z"
  by (simp add: round_half_even_def)

lemma ilog2_of_int:
  assumes "0 < z"
  shows "ilog2 (of_int z) = bitlen z - 1"
proof -
  have "(2::int) ^ nat (bitlen z - 1) \<le> z"
    using bitlen_bounds [OF assms] by simp
  then have "(of_int ((2::int) ^ nat (bitlen z - 1)) :: rat) \<le> of_int z"
    by (simp only: of_int_le_iff)
  moreover have "0 \<le> bitlen z - 1"
    using assms by (simp add: bitlen_alt_def)
  ultimately have "(2::rat) powi (bitlen z - 1) \<le> of_int z"
    by (simp add: power_int_def)
  then show ?thesis
    by (simp add: ilog2_def compute_bitlen)
qed

lemma round_double_of_int:
  assumes "0 < z" and "z < 2 ^ 53"
  shows "round_double s (of_int z) = Finite s (of_int z)"
proof -
  define e where "e = bitlen z - 1"
  have e0: "0 \<le> e"
    using assms(1) by (simp add: e_def bitlen_alt_def)
  have "bitlen z \<le> 53"
    using assms by (simp add: bitlen_le_iff_power)
  then have e52: "e \<le> 52"
    by (simp add: e_def)
  define k where "k = nat (52 - e)"
  define u where "u = (2::rat) powi (e - 52)"
  have ulp: "u = 1 / 2 ^ k"
    using e52 by (simp add: u_def power_int_def k_def inverse_eq_divide power_one_over)
  have q: "(of_int z :: rat) / u = of_int (z * 2 ^ k)"
    by (simp add: ulp)
  have r: "of_int (round_half_even (of_int z / u)) * u = (of_int z :: rat)"
    by (simp only: q round_half_even_of_int) (simp add: ulp)
  have big: "\<not> (2::rat) powi 1024 \<le> of_int z"
  proof -
    have "z < 2 ^ 1024"
      using assms(2) by (rule less_trans) simp
    then have "(of_int z :: rat) < of_int (2 ^ 1024)"
      by (simp only: of_int_less_iff)
    then show ?thesis by simp
  qed
  have nz: "(of_int z :: rat) \<noteq> 0"
    using assms(1) by simp
  have m: "max e (- 1022) = e"
    using e0 by simp
  have "round_double s (of_int z) =
      (if 2 powi 1024 \<le> of_int (round_half_even (of_int z / u)) * u then Infinite s
       else Finite s (of_int (round_half_even (of_int z / u)) * u))"
    using nz
    by (simp only: round_double_def ilog2_of_int [OF assms(1)] e_def [symmetric] m
        u_def [symmetric] Let_def if_False)
  then show ?thesis
    using big by (simp only: r if_False)
qed

lemma round_double_numeral:
  "(numeral n :: int) < 2 ^ 53 \<Longrightarrow> round_double s (numeral n) = Finite s (numeral n)"
  using round_double_of_int [of "numeral n" s] by simp

lemma round_double_1: "round_double s 1 = Finite s 1"
  using round_double_of_int [of 1 s] by simp

lemma round_double_0: "round_double s 0 = Finite s 0"
  by (simp add: round_double_def)

text \<open>The \<open>double\<close> nearest to 1.2.\<close>

lemma quotient_of_6_5: "quotient_of (6 / 5) = (6, 5)"
  by code_simp

lemma floor_rat_numeral: "\<lfloor>(numeral a :: rat) / numeral b\<rfloor> = numeral a div numeral b"
  using floor_divide_of_int_eq [of "numeral a" "numeral b", where ?'a = rat] by simp

lemma round_double_6_5:
  "round_double False (6 / 5) = Finite False (5404319552844595 / 4503599627370496)"
  by (simp add: round_double_def ilog2_def quotient_of_6_5 compute_bitlen round_half_even_def
      floor_rat_numeral Let_def)




section \<open>Properties of \<open>std::stod\<close>\<close>

lemma stod_errors: "stod str = Inl x \<Longrightarrow> x = invalid_argument \<or> x = out_of_range"
  by (auto simp: stod_def Let_def split: prod.splits if_splits)

lemma stod_digit_led:
  assumes "str \<noteq> []" and "isdigit (hd str)"
  shows "stod str \<noteq> Inl invalid_argument"
proof -
  obtain c rest where "str = c # rest"
    using assms(1) by (cases str) auto
  then have "takeWhile isdigit str \<noteq> []"
    using assms(2) by simp
  then show ?thesis
    by (auto simp: stod_def subject_sequence_def Let_def split: prod.splits list.splits if_splits)
qed

lemma not_isdigit_point: "\<not> isdigit CHR ''.''"
  by (simp add: isdigit_def)

lemma subject_sequence_point:
  assumes "\<forall>c \<in> set p. isdigit c" and "\<forall>c \<in> set q. isdigit c"
  shows "subject_sequence (p @ ''.'' @ q) = (p, q)"
    and "subject_sequence (p @ ''.'' @ q @ ''.'' @ r) = (p, q)"
  using assms
  by (simp_all add: subject_sequence_def takeWhile_append2 dropWhile_append2 not_isdigit_point
      takeWhile_tail)



section \<open>Properties of the reader\<close>


lemma number_loop_takeWhile:
  "number_loop input index number =
     (number @ takeWhile (\<lambda>c. isdigit c \<or> c = CHR ''.'') (drop index input),
      index + length (takeWhile (\<lambda>c. isdigit c \<or> c = CHR ''.'') (drop index input)))"
proof (induction input index number rule: number_loop.induct)
  case (1 input index number)
  show ?case
  proof (cases "index < length input \<and> (isdigit (input ! index) \<or> input ! index = CHR ''.'')")
    case True
    then have d: "drop index input = input ! index # drop (index + 1) input"
      by (simp add: Cons_nth_drop_Suc)
    show ?thesis
      using True "1.IH"
      by (subst number_loop.simps) (simp add: currentChar_def d)
  next
    case False
    then have "takeWhile (\<lambda>c. isdigit c \<or> c = CHR ''.'') (drop index input) = []"
      by (cases "index < length input") (auto simp: Cons_nth_drop_Suc [symmetric])
    then show ?thesis
      using False by (subst number_loop.simps) (auto simp: currentChar_def)
  qed
qed




text \<open>The equations that evaluate the reader on a given text.\<close>

lemmas reader_simps =
  parse.simps parse_elements.simps skipWhitespace.simps number_loop.simps symbol_loop.simps
  currentChar_def isspace_def isdigit_def stod_def subject_sequence_def decimal_def
  digit_value_def round_double_numeral round_double_1 round_double_0 Let_def

















section \<open>Properties of the evaluator\<close>

text \<open>
  A reduction's loop folds the values of the operands from the left, and the calls it
  makes leave the registry as it was: only a bare symbol at the top can add an entry.
\<close>

lemma for_loop_operand_values:
  "for_loop f g acc args =
     (case operand_values g args of
        Returns vs g' \<Rightarrow> Returns (foldl f acc vs) g'
      | Throws x g' \<Rightarrow> Throws x g'
      | Undefined \<Rightarrow> Undefined)"
  by (induction args arbitrary: g acc) (simp_all split: outcome.splits)

lemma evalSubtract_operand_values:
  "operand_values g (arg # args) = Returns (v # vs) g' \<Longrightarrow>
     evalSubtract g (arg # args) = Returns (Some (lisp_number (foldl dsub v vs))) g'"
  by (auto simp add: for_loop_operand_values simp del: operand.simps split: outcome.splits)

lemma evalDivide_operand_values:
  "operand_values g (arg # args) = Returns (v # vs) g' \<Longrightarrow>
     evalDivide g (arg # args) = Returns (Some (lisp_number (foldl ddiv v vs))) g'"
  by (auto simp add: for_loop_operand_values simp del: operand.simps split: outcome.splits)

lemma registry_frame:
  "(\<forall>name. e \<noteq> Some (lisp_symbol name)) \<longrightarrow> settled (eval g e) g"
  "settled (operand g arg) g"
  "settled (for_loop f g acc args) g"
  "settled (evalAdd g args) g"
  "settled (evalSubtract g args) g"
  "settled (evalMultiply g args) g"
  "settled (evalDivide g args) g"
proof (induction g e and g arg and f g acc args and g args and g args and g args and g args
    rule: eval_operand_for_loop_evalAdd_evalSubtract_evalMultiply_evalDivide.induct)
  case (6 g arg)
  show ?case
  proof (cases "\<exists>name. arg = Some (lisp_symbol name)")
    case True
    then show ?thesis
      by (auto simp: settled_def subscript_def split: option.splits lisp_object.splits)
  next
    case False
    then show ?thesis
      using 6 by (auto simp: settled_def split: outcome.splits option.splits lisp_object.splits)
  qed
qed (auto simp: settled_def simp del: operand.simps split: outcome.splits option.splits lisp_object.splits)

section \<open>The claims\<close>

text \<open>
  C1. A subtraction form with exactly one operand yields that operand's value unchanged
  (not its negation); with more operands it yields the first operand's value minus each
  further operand's value, folded from the left. The operands are evaluated in order and
  each has to yield a number. Read from text, \<open>(- 10 3 2)\<close> evaluates to 5 and
  \<open>(- 7)\<close> to 7.
\<close>

theorem subtract_left_fold:
  "(operand g arg = Returns v g' \<longrightarrow>
      eval g (Some (lisp_list [Some (lisp_symbol ''-''), arg])) = Returns (Some (lisp_number v)) g') \<and>
   (operand_values g (arg # args) = Returns (w # ws) g'' \<longrightarrow>
      eval g (Some (lisp_list (Some (lisp_symbol ''-'') # arg # args))) =
        Returns (Some (lisp_number (foldl dsub w ws))) g'') \<and>
   evaluate_parse ''(- 10 3 2)'' = Returns (Some (lisp_number (Finite False 5))) interpreter \<and>
   evaluate_parse ''(- 7)'' = Returns (Some (lisp_number (Finite False 7))) interpreter"
proof (intro conjI impI)
  assume "operand g arg = Returns v g'"
  then show "eval g (Some (lisp_list [Some (lisp_symbol ''-''), arg])) = Returns (Some (lisp_number v)) g'"
    by simp
next
  assume "operand_values g (arg # args) = Returns (w # ws) g''"
  then show "eval g (Some (lisp_list (Some (lisp_symbol ''-'') # arg # args))) =
        Returns (Some (lisp_number (foldl dsub w ws))) g''"
    using evalSubtract_operand_values by simp
next
  show "evaluate_parse ''(- 10 3 2)'' = Returns (Some (lisp_number (Finite False 5))) interpreter"
    by (simp add: evaluate_parse_def reader_simps dsub_def signed_def)
next
  show "evaluate_parse ''(- 7)'' = Returns (Some (lisp_number (Finite False 7))) interpreter"
    by (simp add: evaluate_parse_def reader_simps)
qed

theorem subtract_left_fold_witness:
  "eval interpreter (Some (lisp_list [Some (lisp_symbol ''-''), Some (lisp_number (Finite False 7))])) =
     Returns (Some (lisp_number (Finite False 7))) interpreter \<and>
   eval interpreter (Some (lisp_list [Some (lisp_symbol ''-''), Some (lisp_number (Finite False 10)),
       Some (lisp_number (Finite False 3)), Some (lisp_number (Finite False 2))])) =
     Returns (Some (lisp_number (Finite False 5))) interpreter"
  using subtract_left_fold [of interpreter "Some (lisp_number (Finite False 7))" "Finite False 7" interpreter]
    subtract_left_fold [of interpreter "Some (lisp_number (Finite False 10))" _ _
      "[Some (lisp_number (Finite False 3)), Some (lisp_number (Finite False 2))]"
      "Finite False 10" "[Finite False 3, Finite False 2]" interpreter]
  by (simp add: dsub_def signed_def round_double_numeral)

text \<open>
  C2, as stated, fails: no division raises an error. \<open>(/ 8 0)\<close> returns a number, positive
  infinity, in an unchanged registry.
\<close>

theorem divide_by_zero_returns_infinity:
  "evaluate_parse ''(/ 8 0)'' = Returns (Some (lisp_number (Infinite False))) interpreter"
  by (simp add: evaluate_parse_def reader_simps)

text \<open>
  C2, amended. A division form whose operands all evaluate to numbers returns the number
  that the left fold of the \<open>double\<close> division gives, starting from the first operand.
  A zero divisor is no error: the quotient is an infinity when the dividend is not zero
  (finite or infinite), and NaN when the dividend is zero or NaN.
\<close>

theorem divide_left_fold_ieee:
  "(operand_values g (arg # args) = Returns (v # vs) g' \<longrightarrow>
      eval g (Some (lisp_list (Some (lisp_symbol ''/'') # arg # args))) =
        Returns (Some (lisp_number (foldl ddiv v vs))) g') \<and>
   ddiv (Finite s a) (Finite t 0) = (if a = 0 then NaN else Infinite (s \<noteq> t)) \<and>
   ddiv (Infinite s) (Finite t 0) = Infinite (s \<noteq> t) \<and>
   ddiv NaN (Finite t 0) = NaN"
  using evalDivide_operand_values by simp

theorem divide_left_fold_ieee_witness:
  "eval interpreter (Some (lisp_list [Some (lisp_symbol ''/''), Some (lisp_number (Finite False 8)),
       Some (lisp_number (Finite False 0))])) =
     Returns (Some (lisp_number (Infinite False))) interpreter"
  using divide_left_fold_ieee [of interpreter "Some (lisp_number (Finite False 8))"
      "[Some (lisp_number (Finite False 0))]" "Finite False 8" "[Finite False 0]" interpreter]
  by simp

text \<open>
  C3, as stated, fails: reading and evaluating the bare symbol \<open>foo\<close> raises nothing. It
  returns the null pointer, and the registry has an entry for \<open>foo\<close> afterwards.
\<close>

theorem unbound_symbol_read_returns_null:
  "evaluate_parse ''foo'' = Returns None (interpreter(''foo'' \<mapsto> None))"
  by (simp add: evaluate_parse_def reader_simps subscript_def interpreter_def)

text \<open>
  C3, amended. Evaluating a symbol whose name has no entry in the registry returns the
  null pointer without raising an error, and enters the name in the registry with a null
  value. In the registry as constructed this is so for every name other than the four
  operator names.
\<close>

theorem unbound_symbol_returns_null:
  "(g name = None \<longrightarrow>
      eval g (Some (lisp_symbol name)) = Returns None (g(name \<mapsto> None))) \<and>
   (name \<notin> {''+'', ''-'', ''*'', ''/''} \<longrightarrow>
      eval interpreter (Some (lisp_symbol name)) = Returns None (interpreter(name \<mapsto> None)))"
  by (simp add: subscript_def interpreter_def)

theorem unbound_symbol_returns_null_witness:
  "eval interpreter (Some (lisp_symbol ''x'')) = Returns None (interpreter(''x'' \<mapsto> None))"
  using unbound_symbol_returns_null [of interpreter "''x''"] by simp

text \<open>
  C4. The code at the four zero-operand forms: \<open>(+)\<close> is 0 and \<open>(*)\<close> is 1, as claimed;
  \<open>(-)\<close> and \<open>(/)\<close> raise no arity error: \<open>evalSubtract\<close> and \<open>evalDivide\<close> read
  \<open>args[0]\<close> of an empty vector, which is undefined behaviour.
\<close>

theorem zero_operand_forms:
  "evaluate_parse ''(+)'' = Returns (Some (lisp_number (Finite False 0))) interpreter \<and>
   evaluate_parse ''(*)'' = Returns (Some (lisp_number (Finite False 1))) interpreter \<and>
   evaluate_parse ''(-)'' = Undefined \<and>
   evaluate_parse ''(/)'' = Undefined"
  by (simp add: evaluate_parse_def reader_simps double_of_int_def)

text \<open>
  C5. The code where the next non-blank character is \<open>-\<close> followed by a digit: the reader
  takes the number branch, whose loop accepts digits and points only, so the lexeme stays
  empty, the cursor does not move, and \<open>std::stod\<close> of the empty string throws
  \<open>std::invalid_argument\<close>. No number is returned; \<open>-5\<close> is such an input.
\<close>

theorem negative_literal_throws:
  assumes "i = skipWhitespace input index"
    and "i + 1 < length input"
    and "input ! i = CHR ''-''"
    and "isdigit (input ! (i + 1))"
  shows "parse input index = Inl invalid_argument"
proof -
  have "i < length input"
    using assms(2) by simp
  then have "number_loop input i [] = ([], i)"
    using assms(3) by (rule number_loop_minus)
  then show ?thesis
    using assms by (simp add: parse.simps currentChar_def Let_def stod_empty)
qed

theorem negative_literal_throws_witness:
  "parse ''-5'' 0 = Inl invalid_argument"
  using negative_literal_throws [of 0 "''-5''" 0]
  by (simp add: skipWhitespace.simps currentChar_def isspace_def isdigit_def)

text \<open>
  C6, as stated, fails: \<open>1.2.3\<close> is read without any error. The reader consumes all five
  characters and returns the number 1.2 (the \<open>double\<close> nearest to it), the value of the
  shorter prefix \<open>1.2\<close>.
\<close>

theorem second_point_cuts_lexeme:
  "parse ''1.2.3'' 0 =
     Inr (Some (lisp_number (Finite False (5404319552844595 / 4503599627370496))), 5)"
  by (simp add: reader_simps round_double_6_5 floor_rat_numeral)

text \<open>
  C6, amended. Where the next non-blank character is a digit, the lexeme is the longest
  run of digits and points from there. The reader consumes all of it and returns what
  \<open>std::stod\<close> makes of it, a number, with the cursor right after the lexeme; the only
  failure is \<open>std::out_of_range\<close>, for a value outside the range of \<open>double\<close>, and a
  malformed lexeme is no failure: from a second point on, the lexeme is ignored, and the
  number is the value of the part before it.
\<close>

theorem numeric_lexeme_prefix_value:
  assumes "i = skipWhitespace input index"
    and "i < length input"
    and "isdigit (input ! i)"
    and "lexeme = takeWhile (\<lambda>c. isdigit c \<or> c = CHR ''.'') (drop i input)"
  shows "parse input index =
           (case stod lexeme of
              Inl x \<Rightarrow> Inl x
            | Inr v \<Rightarrow> Inr (Some (lisp_number v), i + length lexeme)) \<and>
         ((\<exists>v. stod lexeme = Inr v) \<or> stod lexeme = Inl out_of_range) \<and>
         (\<forall>p q r. lexeme = p @ ''.'' @ q @ ''.'' @ r \<and> (\<forall>c \<in> set (p @ q). isdigit c) \<longrightarrow>
            stod lexeme = stod (p @ ''.'' @ q))"
proof (intro conjI allI impI)
  have "input ! i \<noteq> CHR ''(''"
    using assms(3) by (auto simp: isdigit_def)
  then show "parse input index =
           (case stod lexeme of
              Inl x \<Rightarrow> Inl x
            | Inr v \<Rightarrow> Inr (Some (lisp_number v), i + length lexeme))"
    using assms
    by (simp add: parse.simps [of input index] Let_def currentChar_def number_loop_takeWhile
        cong: sum.case_cong)
next
  have d: "drop i input = input ! i # drop (i + 1) input"
    using assms(2) by (simp add: Cons_nth_drop_Suc)
  have "lexeme \<noteq> []" and "isdigit (hd lexeme)"
    using assms(3) by (simp_all add: assms(4) d)
  then have "stod lexeme \<noteq> Inl invalid_argument"
    by (rule stod_digit_led)
  then show "(\<exists>v. stod lexeme = Inr v) \<or> stod lexeme = Inl out_of_range"
    using stod_errors [of lexeme] by (cases "stod lexeme") auto
next
  fix p q r
  assume "lexeme = p @ ''.'' @ q @ ''.'' @ r \<and> (\<forall>c \<in> set (p @ q). isdigit c)"
  then show "stod lexeme = stod (p @ ''.'' @ q)"
    using subject_sequence_point(1) [of p q] subject_sequence_point(2) [of p q r]
    by (simp add: stod_def)
qed

theorem numeric_lexeme_prefix_value_witness:
  "parse '' 3..1)'' 0 = Inr (Some (lisp_number (Finite False 3)), 5) \<and>
   stod ''3..1'' = stod ''3.''"
  using numeric_lexeme_prefix_value [of 1 "'' 3..1)''" 0 "''3..1''"]
  by (simp add: skipWhitespace.simps currentChar_def isspace_def isdigit_def stod_def
      subject_sequence_def decimal_def digit_value_def round_double_numeral)




text \<open>
  C8. Evaluating an empty list, which is what the reader makes of \<open>()\<close>, returns the null
  pointer, the interpreter's "no value", in an unchanged registry; nothing is thrown and
  nothing undefined happens.
\<close>

theorem eval_empty_list_no_value:
  "eval g (Some (lisp_list [])) = Returns None g \<and>
   parse ''()'' 0 = Inr (Some (lisp_list []), 2) \<and>
   evaluate_parse ''()'' = Returns None interpreter"
  by (simp add: evaluate_parse_def reader_simps)

text \<open>
  C9, as stated, fails: evaluating the bare symbol \<open>foo\<close> leaves a registry of five
  entries.
\<close>

theorem registry_changed_by_unbound_symbol:
  "eval interpreter (Some (lisp_symbol ''foo'')) = Returns None (interpreter(''foo'' \<mapsto> None)) \<and>
   dom (interpreter(''foo'' \<mapsto> None)) = {''+'', ''-'', ''*'', ''/'', ''foo''} \<and>
   dom interpreter = {''+'', ''-'', ''*'', ''/''}"
  by (auto simp: subscript_def interpreter_def)

text \<open>
  C9, amended. The registry as constructed holds exactly the four operator names. A call
  of \<open>eval\<close> that returns or throws never changes or removes an entry; the one change
  it can make is to add, when the expression is a bare symbol whose name has no entry,
  that name with a null value. For every other expression (a number, a list form, a null
  pointer) the registry after the call is the registry before it.
\<close>

theorem registry_only_grows:
  "dom interpreter = {''+'', ''-'', ''*'', ''/''} \<and>
   (eval g e = Returns r g' \<or> eval g e = Throws x g' \<longrightarrow>
      g' = (case e of
              Some (lisp_symbol name) \<Rightarrow> if name \<in> dom g then g else g(name \<mapsto> None)
            | _ \<Rightarrow> g))"
proof (intro conjI impI)
  show "dom interpreter = {''+'', ''-'', ''*'', ''/''}"
    by (auto simp: interpreter_def)
next
  assume r: "eval g e = Returns r g' \<or> eval g e = Throws x g'"
  show "g' = (case e of
              Some (lisp_symbol name) \<Rightarrow> if name \<in> dom g then g else g(name \<mapsto> None)
            | _ \<Rightarrow> g)"
  proof (cases "\<exists>name. e = Some (lisp_symbol name)")
    case True
    then show ?thesis
      using r by (auto simp: subscript_def split: option.splits)
  next
    case False
    then have "settled (eval g e) g"
      using registry_frame(1) [of e g] by blast
    then have "g' = g"
      using r by (auto simp: settled_def)
    then show ?thesis
      using False by (auto split: option.splits lisp_object.splits)
  qed
qed

theorem registry_only_grows_witness:
  "eval interpreter (Some (lisp_list [Some (lisp_symbol ''foo''), Some (lisp_symbol ''y'')])) =
     Throws (runtime_error ''Unknown operator: foo'') interpreter \<and>
   eval interpreter (Some (lisp_symbol ''y'')) = Returns None (interpreter(''y'' \<mapsto> None))"
  using registry_only_grows [of interpreter "Some (lisp_symbol ''y'')" None "interpreter(''y'' \<mapsto> None)"]
    registry_only_grows [of interpreter "Some (lisp_list [Some (lisp_symbol ''foo''), Some (lisp_symbol ''y'')])"
      _ interpreter "runtime_error ''Unknown operator: foo''"]
  by (simp add: subscript_def interpreter_def)

text \<open>
  C10. In the registry as constructed, and in every registry that extends it, evaluating
  the bare symbol of one of the four operator names returns a symbol of the same name,
  the entry the constructor stored, and leaves the registry as it is. The result is no
  number: as an operand it is cast to a null \<open>lisp_number\<close> pointer, and the use of that
  pointer is undefined behaviour.
\<close>

theorem operator_symbol_self_evaluates:
  assumes "interpreter \<subseteq>\<^sub>m g"
    and "name \<in> {''+'', ''-'', ''*'', ''/''}"
  shows "eval g (Some (lisp_symbol name)) = Returns (Some (lisp_symbol name)) g \<and>
         operand g (Some (lisp_symbol name)) = Undefined \<and>
         eval g (Some (lisp_list [Some (lisp_symbol ''+''), Some (lisp_symbol name)])) = Undefined"
proof -
  have "name \<in> dom interpreter" and "interpreter name = Some (Some (lisp_symbol name))"
    using assms(2) by (auto simp: interpreter_def)
  then have "g name = Some (Some (lisp_symbol name))"
    using assms(1) by (metis map_le_def)
  then show ?thesis
    by (simp add: subscript_def)
qed

theorem operator_symbol_self_evaluates_witness:
  "eval interpreter (Some (lisp_symbol ''*'')) = Returns (Some (lisp_symbol ''*'')) interpreter \<and>
   operand interpreter (Some (lisp_symbol ''*'')) = Undefined \<and>
   eval interpreter (Some (lisp_list [Some (lisp_symbol ''+''), Some (lisp_symbol ''*'')])) = Undefined"
  using operator_symbol_self_evaluates [of interpreter "''*''"] by simp

end
